theory Spec2Isabelle
  imports Main "HOL-Library.Sublist"
begin

section \<open>Python values used by \<open>oop_assignment.py\<close>\<close>

text \<open>
  Python integers are unbounded: they are \<open>int\<close>, and \<open>//\<close> is floor division, which is
  \<open>div\<close> on \<open>int\<close>. A Python \<open>str\<close> is modelled by its UTF-8 encoding as a \<open>string\<close>
  (a list of 8-bit characters): the program only concatenates strings and compares them
  for equality, and both commute with the encoding. The non-ASCII literals of the source
  are written out byte by byte.
\<close>

datatype error = AttributeError | TypeError | NotImplementedError

definition em_dash :: string where
  "em_dash = [CHR 0xE2, CHR 0x80, CHR 0x94]"

definition phone_emoji :: string where
  "phone_emoji = [CHR 0xF0, CHR 0x9F, CHR 0x93, CHR 0xB1]"

definition car_emoji :: string where
  "car_emoji = [CHR 0xF0, CHR 0x9F, CHR 0x9A, CHR 0x97]"

definition bike_emoji :: string where
  "bike_emoji = [CHR 0xF0, CHR 0x9F, CHR 0x9A, CHR 0xB2]"

definition plane_emoji :: string where
  "plane_emoji = [CHR 0xE2, CHR 0x9C, CHR 0x88, CHR 0xEF, CHR 0xB8, CHR 0x8F]"

text \<open>
  The built-in \<open>str\<close> on an integer, as the f-strings of \<open>specs\<close> apply it: the decimal
  digits, most significant first, after a minus sign for a negative number.
\<close>

definition digit_char :: "nat \<Rightarrow> char" where
  "digit_char n = char_of (48 + n)"

fun digits :: "nat \<Rightarrow> string" where
  "digits n = (if n < 10 then [digit_char n] else digits (n div 10) @ [digit_char (n mod 10)])"

declare digits.simps [simp del]

definition str_int :: "int \<Rightarrow> string" where
  "str_int i = (if i < 0 then CHR ''-'' # digits (nat (- i)) else digits (nat i))"

section \<open>Activity 1: \<open>Device\<close> and \<open>Smartphone\<close>\<close>

subsection \<open>The instance attributes\<close>

text \<open>
  \<open>battery\<close> is the attribute \<open>_battery\<close>. \<open>Smartphone\<close> extends \<open>Device\<close>, so a method of
  \<open>Device\<close> is a function on every extension of the record (\<open>'a Device_scheme\<close>): that is
  how \<open>Smartphone\<close> inherits it.
\<close>

record Device =
  brand :: string
  model :: string
  battery :: int

record Smartphone = Device +
  phone_number :: string
  apps :: "string list"

subsection \<open>The methods of \<open>Device\<close>\<close>

definition Device_init :: "string \<Rightarrow> string \<Rightarrow> int \<Rightarrow> Device" where
  "Device_init b m lvl = \<lparr>brand = b, model = m, battery = max 0 (min 100 lvl)\<rparr>"

definition Device_battery_level :: "'a Device_scheme \<Rightarrow> int" where
  "Device_battery_level self = battery self"

definition Device_charge :: "'a Device_scheme \<Rightarrow> int \<Rightarrow> 'a Device_scheme" where
  "Device_charge self amount = self\<lparr>battery := max 0 (min 100 (battery self + amount))\<rparr>"

definition Device_drain :: "'a Device_scheme \<Rightarrow> int \<Rightarrow> 'a Device_scheme" where
  "Device_drain self amount = self\<lparr>battery := max 0 (battery self - amount)\<rparr>"

definition Device_use :: "'a Device_scheme \<Rightarrow> int \<Rightarrow> 'a Device_scheme" where
  "Device_use self minutes = (let drain = max 0 (minutes div 10) in Device_drain self drain)"

definition Device_specs :: "'a Device_scheme \<Rightarrow> string" where
  "Device_specs self =
     brand self @ '' '' @ model self @ '' '' @ em_dash @ '' Battery: '' @
     str_int (Device_battery_level self) @ ''%''"

subsection \<open>The methods of \<open>Smartphone\<close>\<close>

definition Smartphone_init :: "string \<Rightarrow> string \<Rightarrow> string \<Rightarrow> int \<Rightarrow> Smartphone" where
  "Smartphone_init b m pn lvl =
     Device.extend (Device_init b m lvl) (Smartphone.fields pn [])"

definition Smartphone_install_app :: "Smartphone \<Rightarrow> string \<Rightarrow> Smartphone" where
  "Smartphone_install_app self name =
     (if name \<notin> set (apps self) then Device_drain (self\<lparr>apps := apps self @ [name]\<rparr>) 1
      else self)"

definition Smartphone_call :: "Smartphone \<Rightarrow> string \<Rightarrow> int \<Rightarrow> Smartphone" where
  "Smartphone_call self number minutes = (let drain = max 1 minutes in Device_drain self drain)"

definition Smartphone_specs :: "Smartphone \<Rightarrow> string" where
  "Smartphone_specs self =
     (let app_count = int (length (apps self)) in
      brand self @ '' '' @ model self @ '' ('' @ phone_emoji @ '' '' @ phone_number self @
      '') '' @ em_dash @ '' '' @ ''Apps: '' @ str_int app_count @ '', Battery: '' @
      str_int (Device_battery_level self) @ ''%'')"

definition Smartphone_use :: "Smartphone \<Rightarrow> int \<Rightarrow> Smartphone" where
  "Smartphone_use self minutes = (let drain = max 0 (minutes div 5) in Device_drain self drain)"

subsection \<open>Objects and method calls\<close>

text \<open>
  An object of the family carries its class: a call \<open>x.use(m)\<close>, \<open>x.specs()\<close> or \<open>str(x)\<close>
  runs the method that the class of \<open>x\<close> resolves to. \<open>Device\<close> has no \<open>install_app\<close> and
  no \<open>call\<close>: the attribute lookup fails there. \<open>Device.__str__\<close> is \<open>return self.specs()\<close>
  and \<open>Smartphone\<close> inherits it, so \<open>str\<close> calls \<open>specs\<close> on the object itself.
\<close>

datatype device_obj = Dev Device | Phone Smartphone

fun battery_level :: "device_obj \<Rightarrow> int" where
  "battery_level (Dev d) = Device_battery_level d"
| "battery_level (Phone p) = Device_battery_level p"

fun charge :: "device_obj \<Rightarrow> int \<Rightarrow> device_obj" where
  "charge (Dev d) amount = Dev (Device_charge d amount)"
| "charge (Phone p) amount = Phone (Device_charge p amount)"

fun use :: "device_obj \<Rightarrow> int \<Rightarrow> device_obj" where
  "use (Dev d) minutes = Dev (Device_use d minutes)"
| "use (Phone p) minutes = Phone (Smartphone_use p minutes)"

fun specs :: "device_obj \<Rightarrow> string" where
  "specs (Dev d) = Device_specs d"
| "specs (Phone p) = Smartphone_specs p"

definition Device_str :: "device_obj \<Rightarrow> string" where
  "Device_str self = specs self"

fun str :: "device_obj \<Rightarrow> string" where
  "str (Dev d) = Device_str (Dev d)"
| "str (Phone p) = Device_str (Phone p)"

fun install_app :: "device_obj \<Rightarrow> string \<Rightarrow> error + device_obj" where
  "install_app (Dev d) name = Inl AttributeError"
| "install_app (Phone p) name = Inr (Phone (Smartphone_install_app p name))"

fun call :: "device_obj \<Rightarrow> string \<Rightarrow> int \<Rightarrow> error + device_obj" where
  "call (Dev d) number minutes = Inl AttributeError"
| "call (Phone p) number minutes = Inr (Phone (Smartphone_call p number minutes))"

subsection \<open>Sequences of public operations\<close>

text \<open>
  A caller constructs an object and then invokes public methods on it, in any order and
  with any integer arguments. \<open>None\<close> stands for an omitted argument that has a default:
  \<open>battery_level = 100\<close> in both constructors and \<open>minutes = 1\<close> in \<open>call\<close>.
\<close>

datatype construction =
    NewDevice string string "int option"
  | NewSmartphone string string string "int option"

fun construct :: "construction \<Rightarrow> device_obj" where
  "construct (NewDevice b m None) = Dev (Device_init b m 100)"
| "construct (NewDevice b m (Some lvl)) = Dev (Device_init b m lvl)"
| "construct (NewSmartphone b m pn None) = Phone (Smartphone_init b m pn 100)"
| "construct (NewSmartphone b m pn (Some lvl)) = Phone (Smartphone_init b m pn lvl)"

datatype operation =
    Charge int
  | Use int
  | InstallApp string
  | Call string "int option"

fun apply_op :: "device_obj \<Rightarrow> operation \<Rightarrow> error + device_obj" where
  "apply_op x (Charge amount) = Inr (charge x amount)"
| "apply_op x (Use minutes) = Inr (use x minutes)"
| "apply_op x (InstallApp name) = install_app x name"
| "apply_op x (Call number None) = call x number 1"
| "apply_op x (Call number (Some minutes)) = call x number minutes"

fun run :: "device_obj \<Rightarrow> operation list \<Rightarrow> error + device_obj" where
  "run x [] = Inr x"
| "run x (op # ops) = (case apply_op x op of Inl e \<Rightarrow> Inl e | Inr y \<Rightarrow> run y ops)"

text \<open>Whether the class of the object defines or inherits the method an operation calls.\<close>

fun has_method :: "device_obj \<Rightarrow> operation \<Rightarrow> bool" where
  "has_method (Dev d) (InstallApp name) = False"
| "has_method (Dev d) (Call number minutes) = False"
| "has_method x op = True"

section \<open>Activity 2: \<open>Vehicle\<close> and its subclasses\<close>

text \<open>
  \<open>Vehicle\<close> derives from \<open>ABC\<close> and decorates \<open>move\<close> with \<open>abstractmethod\<close>; \<open>Car\<close>, \<open>Bike\<close>
  and \<open>Plane\<close> override \<open>move\<close>. \<open>Subclass base None\<close> is a class that a caller derives from
  \<open>base\<close> without defining \<open>move\<close>, and \<open>Subclass base (Some s)\<close> one whose \<open>move\<close> returns
  \<open>s\<close>.
\<close>

datatype vehicle_class =
    Vehicle
  | Car
  | Bike
  | Plane
  | Subclass vehicle_class "string option"

text \<open>The bodies of the four \<open>move\<close> methods: the abstract one raises.\<close>

definition Vehicle_move :: "error + string" where
  "Vehicle_move = Inl NotImplementedError"

definition Car_move :: "error + string" where
  "Car_move = Inr (''Driving '' @ car_emoji)"

definition Bike_move :: "error + string" where
  "Bike_move = Inr (''Riding '' @ bike_emoji)"

definition Plane_move :: "error + string" where
  "Plane_move = Inr (''Flying '' @ plane_emoji)"

text \<open>
  Attribute lookup of \<open>move\<close> along the method resolution order: the class's own
  definition, else its base's. \<open>isabstract\<close> is the function's \<open>__isabstractmethod__\<close>.
\<close>

record move_decl =
  isabstract :: bool
  body :: "error + string"

fun lookup_move :: "vehicle_class \<Rightarrow> move_decl" where
  "lookup_move Vehicle = \<lparr>isabstract = True, body = Vehicle_move\<rparr>"
| "lookup_move Car = \<lparr>isabstract = False, body = Car_move\<rparr>"
| "lookup_move Bike = \<lparr>isabstract = False, body = Bike_move\<rparr>"
| "lookup_move Plane = \<lparr>isabstract = False, body = Plane_move\<rparr>"
| "lookup_move (Subclass base (Some s)) = \<lparr>isabstract = False, body = Inr s\<rparr>"
| "lookup_move (Subclass base None) = lookup_move base"

text \<open>
  \<open>ABCMeta\<close> records in \<open>__abstractmethods__\<close> the names that still resolve to an abstract
  method, and instantiating a class whose \<open>__abstractmethods__\<close> is not empty raises
  \<open>TypeError\<close>. A vehicle object has no attributes: it is its class.
\<close>

definition abstractmethods :: "vehicle_class \<Rightarrow> string list" where
  "abstractmethods c = (if isabstract (lookup_move c) then [''move''] else [])"

datatype vehicle_obj = VehicleObj (class_of: vehicle_class)

definition new_vehicle :: "vehicle_class \<Rightarrow> error + vehicle_obj" where
  "new_vehicle c = (if abstractmethods c \<noteq> [] then Inl TypeError else Inr (VehicleObj c))"

definition move :: "vehicle_obj \<Rightarrow> error + string" where
  "move v = body (lookup_move (class_of v))"

section \<open>The specification's clamp\<close>

text \<open>
  The glossary of the specification: clamp(x, lo, hi) constrains \<open>x\<close> to the closed
  interval from \<open>lo\<close> to \<open>hi\<close>. The program never defines it; it writes
  \<open>max(0, min(100, x))\<close> in place. \<open>spec_clamp\<close> follows the specification and is compared
  with the program's expression below.
\<close>

definition spec_clamp :: "int \<Rightarrow> int \<Rightarrow> int \<Rightarrow> int" where
  "spec_clamp x lo hi = (if x < lo then lo else if hi < x then hi else x)"

section \<open>Auxiliary facts\<close>

lemma battery_Device_drain: "battery (Device_drain self amount) = max 0 (battery self - amount)"
  by (simp add: Device_drain_def)

lemma battery_Device_charge:
  "battery (Device_charge self amount) = max 0 (min 100 (battery self + amount))"
  by (simp add: Device_charge_def)

lemma battery_Device_use:
  "battery (Device_use self minutes) = max 0 (battery self - max 0 (minutes div 10))"
  by (simp add: Device_use_def Let_def battery_Device_drain)

lemma battery_Smartphone_use:
  "battery (Smartphone_use self minutes) = max 0 (battery self - max 0 (minutes div 5))"
  by (simp add: Smartphone_use_def Let_def battery_Device_drain)

lemma battery_Smartphone_call:
  "battery (Smartphone_call self number minutes) = max 0 (battery self - max 1 minutes)"
  by (simp add: Smartphone_call_def Let_def battery_Device_drain)

lemma battery_Smartphone_install_app:
  "battery (Smartphone_install_app self name) =
     (if name \<in> set (apps self) then battery self else max 0 (battery self - 1))"
  by (simp add: Smartphone_install_app_def battery_Device_drain)

lemma battery_Device_init: "battery (Device_init b m lvl) = max 0 (min 100 lvl)"
  by (simp add: Device_init_def)

lemma battery_Smartphone_init: "battery (Smartphone_init b m pn lvl) = max 0 (min 100 lvl)"
  by (simp add: Smartphone_init_def Device_init_def Device.extend_def)

lemma clamp_refines: "max 0 (min 100 x) = spec_clamp x 0 100"
  by (simp add: spec_clamp_def)

subsection \<open>The text of \<open>specs\<close>\<close>

text \<open>
  The decimal digits of a number hold no space, so the last space of either \<open>specs\<close>
  string is the one before the battery level, and the two formats differ in the
  character before \<open>Battery:\<close>.
\<close>

lemma digit_char_not_space: "n < 10 \<Longrightarrow> CHR '' '' \<noteq> digit_char n"
proof
  assume n: "n < 10" and eq: "CHR '' '' = digit_char n"
  from eq [symmetric] have "(of_char (char_of (48 + n)) :: nat) = of_char (CHR '' '')"
    by (simp add: digit_char_def)
  with n show False by simp
qed

lemma digits_no_space: "CHR '' '' \<notin> set (digits n)"
proof (induction n rule: digits.induct)
  case (1 n)
  show ?case
  proof (cases "n < 10")
    case True
    then show ?thesis by (subst digits.simps) (simp add: digit_char_not_space)
  next
    case False
    with 1 show ?thesis by (subst digits.simps) (simp add: digit_char_not_space)
  qed
qed

lemma str_int_no_space: "CHR '' '' \<notin> set (str_int i)"
  by (simp add: str_int_def digits_no_space)

lemma split_first:
  "x \<notin> set d \<Longrightarrow> x \<notin> set d' \<Longrightarrow> d @ x # u = d' @ x # u' \<Longrightarrow> d = d' \<and> u = u'"
proof (induction d arbitrary: d')
  case Nil
  then show ?case by (cases d') auto
next
  case (Cons a ds)
  then show ?case by (cases d') auto
qed

lemma split_last:
  assumes "u @ x # d = u' @ x # d'" and "x \<notin> set d" and "x \<notin> set d'"
  shows "u = u' \<and> d = d'"
proof -
  from assms(1) have "rev (u @ x # d) = rev (u' @ x # d')" by simp
  then have "rev d @ x # rev u = rev d' @ x # rev u'" by simp
  moreover have "x \<notin> set (rev d)" "x \<notin> set (rev d')" using assms by simp_all
  ultimately have "rev d = rev d' \<and> rev u = rev u'"
    by (rule split_first [rotated 2])
  then show ?thesis by simp
qed

lemma Smartphone_specs_not_generic: "Smartphone_specs p \<noteq> Device_specs d"
proof
  assume eq: "Smartphone_specs p = Device_specs d"
  define X where "X = brand p @ '' '' @ model p @ '' ('' @ phone_emoji @ '' '' @ phone_number p @
      '') '' @ em_dash @ '' '' @ ''Apps: '' @ str_int (int (length (apps p)))"
  define Y where "Y = brand d @ '' '' @ model d @ '' '' @ [CHR 0xE2, CHR 0x80]"
  have P: "Smartphone_specs p = (X @ '', Battery:'') @ CHR '' '' # (str_int (battery p) @ ''%'')"
    by (simp add: Smartphone_specs_def Let_def X_def Device_battery_level_def)
  have G: "Device_specs d = (Y @ [CHR 0x94] @ '' Battery:'') @ CHR '' '' # (str_int (battery d) @ ''%'')"
    by (simp add: Device_specs_def Y_def em_dash_def Device_battery_level_def)
  have "CHR '' '' \<notin> set (str_int (battery p) @ ''%'')" "CHR '' '' \<notin> set (str_int (battery d) @ ''%'')"
    by (simp_all add: str_int_no_space)
  with eq P G have "X @ '', Battery:'' = Y @ [CHR 0x94] @ '' Battery:''"
    using split_last by metis
  then have "(X @ '','') @ '' Battery:'' = (Y @ [CHR 0x94]) @ '' Battery:''" by simp
  then have "X @ '','' = Y @ [CHR 0x94]" by (simp only: append_same_eq)
  then have "last (X @ '','') = last (Y @ [CHR 0x94])" by simp
  then show False by simp
qed

subsection \<open>The battery stays in range\<close>

text \<open>
  Each public method keeps a battery that is between 0 and 100 there, and leaves the class
  of the object as it was; so does every sequence of calls of methods the class has.
\<close>

lemma has_method_apply_op: "apply_op x op = Inr y \<Longrightarrow> has_method y op' = has_method x op'"
  by (cases "(x, op)" rule: apply_op.cases; cases x; cases op') auto

lemma construct_in_range: "0 \<le> battery_level (construct c) \<and> battery_level (construct c) \<le> 100"
  by (cases c rule: construct.cases)
    (simp_all add: Device_battery_level_def battery_Device_init battery_Smartphone_init)

lemma apply_op_in_range:
  assumes "0 \<le> battery_level x" and "battery_level x \<le> 100" and "has_method x op"
  shows "\<exists>y. apply_op x op = Inr y \<and> 0 \<le> battery_level y \<and> battery_level y \<le> 100"
proof (cases x)
  case (Dev d)
  with assms show ?thesis
    by (cases op)
      (simp_all add: Device_battery_level_def battery_Device_charge battery_Device_use)
next
  case (Phone p)
  with assms show ?thesis
  proof (cases op)
    case (Call number minutes)
    with Phone assms show ?thesis
      by (cases minutes) (simp_all add: Device_battery_level_def battery_Smartphone_call)
  qed (simp_all add: Device_battery_level_def battery_Device_charge battery_Smartphone_use
      battery_Smartphone_install_app)
qed

lemma run_in_range:
  "0 \<le> battery_level x \<Longrightarrow> battery_level x \<le> 100 \<Longrightarrow> list_all (has_method x) ops \<Longrightarrow>
   \<exists>y. run x ops = Inr y \<and> 0 \<le> battery_level y \<and> battery_level y \<le> 100"
proof (induction ops arbitrary: x)
  case Nil
  then show ?case by simp
next
  case (Cons op ops)
  from Cons.prems have "has_method x op" by simp
  with Cons.prems obtain y where y: "apply_op x op = Inr y" "0 \<le> battery_level y" "battery_level y \<le> 100"
    using apply_op_in_range by blast
  from y(1) have "has_method y = has_method x"
    by (simp add: has_method_apply_op fun_eq_iff)
  with Cons.prems have "list_all (has_method y) ops" by simp
  with Cons.IH y obtain z where "run y ops = Inr z" "0 \<le> battery_level z" "battery_level z \<le> 100"
    by blast
  with y(1) show ?case by simp
qed

lemma list_all_take: "list_all P xs \<Longrightarrow> list_all P (take k xs)"
  by (auto simp: list_all_iff dest: in_set_takeD)

subsection \<open>Drain amounts and method lookup\<close>

lemma div5_div10:
  "max 0 (minutes div 5) = 2 * max 0 (minutes div 10) + (if 0 \<le> minutes \<and> 5 \<le> minutes mod 10 then 1 else 0)"
  for minutes :: int
proof (cases "0 \<le> minutes")
  case True
  then have "0 \<le> minutes div 5" "0 \<le> minutes div 10" by simp_all
  then show ?thesis using True by (simp add: max_def) presburger
next
  case False
  then have "minutes div 5 < 0" "minutes div 10 < 0" by simp_all
  then show ?thesis using False by (simp add: max_def)
qed


lemma moves_distinct: "distinct [Car_move, Bike_move, Plane_move]"
  by (simp add: Car_move_def Bike_move_def Plane_move_def)

lemma lookup_move_abstract: "isabstract (lookup_move c) = (lookup_move c = lookup_move Vehicle)"
  by (induction c rule: lookup_move.induct) simp_all

lemma lookup_move_concrete: "\<not> isabstract (lookup_move c) \<Longrightarrow> \<exists>s. body (lookup_move c) = Inr s"
  by (induction c rule: lookup_move.induct)
    (simp_all add: Car_move_def Bike_move_def Plane_move_def)

section \<open>The battery invariant\<close>

text \<open>
  Claim C1. Construct a \<open>Device\<close> or a \<open>Smartphone\<close> with any integer battery argument (or
  none), then call \<open>charge\<close>, \<open>use\<close>, \<open>install_app\<close> and \<open>call\<close> in any order and with any
  integer arguments, each call being of a method the object's class has (\<open>Device\<close> has
  neither \<open>install_app\<close> nor \<open>call\<close>; \<open>Smartphone\<close> has all four). Then no call raises, and
  after every prefix of the sequence \<open>battery_level\<close> returns an integer between 0 and 100.
\<close>

theorem battery_level_in_range:
  "list_all (has_method (construct c)) ops \<Longrightarrow>
   \<exists>x. run (construct c) (take k ops) = Inr x \<and> 0 \<le> battery_level x \<and> battery_level x \<le> 100"
  using run_in_range [OF _ _ list_all_take] construct_in_range by blast

theorem battery_level_in_range_witness:
  "list_all (has_method (construct (NewSmartphone ''Pear'' ''iFruit 14'' ''+266-5012-3456'' (Some 65))))
     [InstallApp ''Maps'', InstallApp ''Chat'', Use 30, Call ''+266-7777-8888'' (Some 3),
      Charge 500, Call ''x'' (Some (- 7)), Use (- 3), Call ''y'' None, Call ''z'' (Some 1000)]
   \<and> (\<exists>x. run (construct (NewSmartphone ''Pear'' ''iFruit 14'' ''+266-5012-3456'' (Some 65)))
       (take 7 [InstallApp ''Maps'', InstallApp ''Chat'', Use 30, Call ''+266-7777-8888'' (Some 3),
      Charge 500, Call ''x'' (Some (- 7)), Use (- 3), Call ''y'' None, Call ''z'' (Some 1000)]) = Inr x
       \<and> battery_level x = 99)
   \<and> list_all (has_method (construct (NewDevice ''Acme'' ''Tab-10'' (Some 750)))) [Use 25, Charge (- 10)]
   \<and> (\<exists>x. run (construct (NewDevice ''Acme'' ''Tab-10'' (Some 750))) (take 2 [Use 25, Charge (- 10)]) = Inr x
       \<and> battery_level x = 88)"
  using battery_level_in_range [of "NewSmartphone ''Pear'' ''iFruit 14'' ''+266-5012-3456'' (Some 65)"
      "[InstallApp ''Maps'', InstallApp ''Chat'', Use 30, Call ''+266-7777-8888'' (Some 3),
      Charge 500, Call ''x'' (Some (- 7)), Use (- 3), Call ''y'' None, Call ''z'' (Some 1000)]" 7]
    battery_level_in_range [of "NewDevice ''Acme'' ''Tab-10'' (Some 750)" "[Use 25, Charge (- 10)]" 2]
  by (simp add: Smartphone_init_def Device_init_def Device.extend_def Smartphone.fields_def
      Smartphone_install_app_def Smartphone_use_def Smartphone_call_def Device_drain_def
      Device_charge_def Device_use_def Device_battery_level_def)

section \<open>\<open>Smartphone.use\<close> against \<open>Device.use\<close>\<close>

text \<open>
  Claim C2, as the specification states it, asks the drain of \<open>Smartphone.use\<close> to be
  exactly twice the drain of \<open>Device.use\<close> for every duration. For 5 minutes from a full
  battery the smartphone drains 1 percent and the device drains nothing.
\<close>

theorem Smartphone_use_twice_counterexample:
  "100 - battery_level (use (construct (NewSmartphone ''P'' ''M'' ''1'' (Some 100))) 5)
   \<noteq> 2 * (100 - battery_level (use (construct (NewDevice ''P'' ''M'' (Some 100))) 5))"
  by (simp add: Smartphone_init_def Device_init_def Device.extend_def Smartphone.fields_def
      Smartphone_use_def Device_use_def Device_drain_def Device_battery_level_def)

text \<open>
  Claim C2, amended. For every duration \<open>minutes\<close>, \<open>Smartphone.use\<close> drains
  \<open>max(0, minutes div 5)\<close> percent and \<open>Device.use\<close> drains \<open>max(0, minutes div 10)\<close> percent,
  each drain stopping at a battery of 0. The smartphone's amount is twice the device's,
  plus one when \<open>minutes\<close> is not negative and \<open>minutes mod 10\<close> is at least 5. From battery
  100, \<open>Device.use(20)\<close> drains 2 and \<open>Smartphone.use(20)\<close> drains 4.
\<close>

theorem Smartphone_use_drain:
  "Smartphone_use p minutes = Device_drain p (max 0 (minutes div 5))
   \<and> battery (Smartphone_use p minutes) = max 0 (battery p - max 0 (minutes div 5))
   \<and> Device_use d minutes = Device_drain d (max 0 (minutes div 10))
   \<and> max 0 (minutes div 5) =
       2 * max 0 (minutes div 10) + (if 0 \<le> minutes \<and> 5 \<le> minutes mod 10 then 1 else 0)
   \<and> 100 - battery_level (use (construct (NewDevice b m (Some 100))) 20) = 2
   \<and> 100 - battery_level (use (construct (NewSmartphone b m pn (Some 100))) 20) = 4"
proof -
  have dev: "100 - battery_level (use (construct (NewDevice b m (Some 100))) 20) = 2"
    by (simp add: Device_battery_level_def battery_Device_use battery_Device_init)
  have phone: "100 - battery_level (use (construct (NewSmartphone b m pn (Some 100))) 20) = 4"
    by (simp add: Device_battery_level_def battery_Smartphone_use battery_Smartphone_init)
  show ?thesis
    using dev phone div5_div10 [of minutes]
    by (simp add: Smartphone_use_def Device_use_def battery_Device_drain)
qed

section \<open>Construction and \<open>charge\<close>\<close>

text \<open>
  Claim C3. For every integer battery argument, constructing a \<open>Device\<close> stores brand and
  model as given and sets the battery to the argument clamped to the interval from 0 to
  100, which is what \<open>battery_level\<close> then returns. For every integer amount, \<open>charge\<close> sets
  the battery to the clamped sum of the old battery and the amount, and the call
  returns normally whatever the amount. A negative amount is accepted: on a battery of
  at most 100 the call is the same as draining the absolute amount, and it lowers a
  battery that is above 0.
\<close>

theorem Device_init_charge_clamp:
  "battery_level (construct (NewDevice b m (Some lvl))) = spec_clamp lvl 0 100
   \<and> Device_init b m lvl = \<lparr>brand = b, model = m, battery = spec_clamp lvl 0 100\<rparr>
   \<and> Device_charge self a = self\<lparr>battery := spec_clamp (battery self + a) 0 100\<rparr>
   \<and> apply_op x (Charge a) = Inr (charge x a)
   \<and> battery_level (charge x a) = spec_clamp (battery_level x + a) 0 100
   \<and> (a < 0 \<longrightarrow> battery self \<le> 100 \<longrightarrow> Device_charge self a = Device_drain self (- a))
   \<and> (a < 0 \<longrightarrow> 0 < battery self \<longrightarrow> battery self \<le> 100 \<longrightarrow>
        battery (Device_charge self a) < battery self)"
proof -
  have init: "Device_init b m lvl = \<lparr>brand = b, model = m, battery = spec_clamp lvl 0 100\<rparr>"
    by (simp add: Device_init_def clamp_refines)
  have lvl: "battery_level (construct (NewDevice b m (Some lvl))) = spec_clamp lvl 0 100"
    by (simp add: init Device_battery_level_def)
  have chg: "Device_charge self a = self\<lparr>battery := spec_clamp (battery self + a) 0 100\<rparr>"
    by (simp add: Device_charge_def clamp_refines)
  have obj: "battery_level (charge x a) = spec_clamp (battery_level x + a) 0 100"
    by (cases x) (simp_all add: Device_battery_level_def battery_Device_charge clamp_refines)
  have neg: "a < 0 \<longrightarrow> battery self \<le> 100 \<longrightarrow> Device_charge self a = Device_drain self (- a)"
    by (simp add: Device_charge_def Device_drain_def)
  have low: "a < 0 \<longrightarrow> 0 < battery self \<longrightarrow> battery self \<le> 100 \<longrightarrow>
        battery (Device_charge self a) < battery self"
    by (simp add: battery_Device_charge)
  show ?thesis
    using init lvl chg obj neg low by simp
qed

theorem Device_init_charge_clamp_witness:
  "battery_level (construct (NewDevice ''A'' ''B'' (Some 150))) = 100
   \<and> battery_level (construct (NewDevice ''A'' ''B'' (Some (- 20)))) = 0
   \<and> (- 10 :: int) < 0 \<and> (0::int) < 50 \<and> battery (Device_init ''A'' ''B'' 50) \<le> 100
   \<and> Device_charge (Device_init ''A'' ''B'' 50) (- 10) = Device_drain (Device_init ''A'' ''B'' 50) 10
   \<and> battery (Device_charge (Device_init ''A'' ''B'' 50) (- 10)) = 40"
  using Device_init_charge_clamp [of "''A''" "''B''" 150 "Device_init ''A'' ''B'' 50" "- 10" "Dev (Device_init ''A'' ''B'' 50)"]
    Device_init_charge_clamp [of "''A''" "''B''" "- 20" "Device_init ''A'' ''B'' 50" "- 10" "Dev (Device_init ''A'' ''B'' 50)"]
  by (simp add: spec_clamp_def Device_init_def Device_charge_def Device_drain_def
      Device_battery_level_def)

section \<open>\<open>Device.use\<close>\<close>

text \<open>
  Claim C4. For every integer \<open>minutes\<close>, \<open>Device.use\<close> drains \<open>max(0, minutes div 10)\<close>
  percent, the drain stopping at a battery of 0; the call returns normally, and with
  negative \<open>minutes\<close> it leaves an object whose battery is not negative as it was. A
  device built with battery 50 has battery 60 after \<open>charge(10)\<close> and 58 after the
  following \<open>use(25)\<close>.
\<close>

theorem Device_use_drain:
  "Device_use self minutes = Device_drain self (max 0 (minutes div 10))
   \<and> battery (Device_use self minutes) = max 0 (battery self - max 0 (minutes div 10))
   \<and> apply_op x (Use minutes) = Inr (use x minutes)
   \<and> (minutes < 0 \<longrightarrow> 0 \<le> battery self \<longrightarrow> Device_use self minutes = self)
   \<and> map_sum id battery_level (run (construct (NewDevice ''A'' ''B'' (Some 50))) [Charge 10]) = Inr 60
   \<and> map_sum id battery_level (run (construct (NewDevice ''A'' ''B'' (Some 50))) [Charge 10, Use 25]) = Inr 58"
proof -
  have neg: "minutes < 0 \<longrightarrow> 0 \<le> battery self \<longrightarrow> Device_use self minutes = self"
  proof (intro impI)
    assume "minutes < 0" "0 \<le> battery self"
    then have "minutes div 10 < 0" by simp
    then have "max 0 (minutes div 10) = 0" by simp
    with \<open>0 \<le> battery self\<close> show "Device_use self minutes = self"
      by (simp add: Device_use_def Device_drain_def)
  qed
  have ex1: "map_sum id battery_level (run (construct (NewDevice ''A'' ''B'' (Some 50))) [Charge 10]) = Inr 60"
    by (simp add: Device_init_def Device_charge_def Device_battery_level_def)
  have ex2: "map_sum id battery_level (run (construct (NewDevice ''A'' ''B'' (Some 50))) [Charge 10, Use 25]) = Inr 58"
    by (simp add: Device_init_def Device_charge_def Device_use_def Device_drain_def Device_battery_level_def)
  show ?thesis
    using neg ex1 ex2 by (simp add: Device_use_def battery_Device_drain)
qed

theorem Device_use_drain_witness:
  "(- 5 :: int) < 0 \<and> 0 \<le> battery (Device_init ''A'' ''B'' 50)
   \<and> Device_use (Device_init ''A'' ''B'' 50) (- 5) = Device_init ''A'' ''B'' 50
   \<and> battery (Device_use (Device_init ''A'' ''B'' 50) 25) = 48
   \<and> battery (Device_use (Device_init ''A'' ''B'' 1) 250) = 0"
  using Device_use_drain [of "Device_init ''A'' ''B'' 50" "- 5"]
    Device_use_drain [of "Device_init ''A'' ''B'' 50" 25]
    Device_use_drain [of "Device_init ''A'' ''B'' 1" 250]
  by (simp add: Device_init_def Device_drain_def)

section \<open>\<open>Smartphone.install_app\<close>\<close>



section \<open>\<open>Smartphone.call\<close>\<close>



section \<open>\<open>str\<close> and \<open>specs\<close>\<close>

text \<open>
  Claim C7. For every object of the family, \<open>str\<close> returns what \<open>specs\<close> returns on that
  object, and \<open>specs\<close> is resolved by the object's class. So the text of a smartphone is
  that of \<open>Smartphone.specs\<close>: it contains the phone number and the number of installed
  apps, and it is never a text that \<open>Device.specs\<close> produces, for this object or for any
  other brand, model and battery.
\<close>

theorem str_is_specs:
  "str x = specs x
   \<and> str (Phone p) = Smartphone_specs p
   \<and> str (Phone p) =
       brand p @ '' '' @ model p @ '' ('' @ phone_emoji @ '' '' @ phone_number p @ '') '' @
       em_dash @ '' Apps: '' @ str_int (int (length (apps p))) @ '', Battery: '' @
       str_int (battery_level (Phone p)) @ ''%''
   \<and> sublist (phone_number p) (str (Phone p))
   \<and> sublist (''Apps: '' @ str_int (int (length (apps p)))) (str (Phone p))
   \<and> str (Phone p) \<noteq> Device_specs d"
proof -
  have disp: "str x = specs x"
    by (cases x) (simp_all add: Device_str_def)
  have phone: "str (Phone p) = Smartphone_specs p"
    by (simp add: Device_str_def)
  have fmt: "str (Phone p) =
       brand p @ '' '' @ model p @ '' ('' @ phone_emoji @ '' '' @ phone_number p @ '') '' @
       em_dash @ '' Apps: '' @ str_int (int (length (apps p))) @ '', Battery: '' @
       str_int (battery_level (Phone p)) @ ''%''"
    by (simp add: Device_str_def Smartphone_specs_def Let_def)
  have "str (Phone p) = (brand p @ '' '' @ model p @ '' ('' @ phone_emoji @ '' '') @
      phone_number p @ ('') '' @ em_dash @ '' Apps: '' @ str_int (int (length (apps p))) @
       '', Battery: '' @ str_int (battery_level (Phone p)) @ ''%'')"
    by (subst fmt) simp
  then have number: "sublist (phone_number p) (str (Phone p))"
    by (simp only: sublist_appendI)
  have "str (Phone p) = (brand p @ '' '' @ model p @ '' ('' @ phone_emoji @ '' '' @
      phone_number p @ '') '' @ em_dash @ '' '') @ (''Apps: '' @ str_int (int (length (apps p)))) @
       ('', Battery: '' @ str_int (battery_level (Phone p)) @ ''%'')"
    by (subst fmt) simp
  then have count: "sublist (''Apps: '' @ str_int (int (length (apps p)))) (str (Phone p))"
    by (simp only: sublist_appendI)
  have generic: "str (Phone p) \<noteq> Device_specs d"
    by (simp add: Device_str_def Smartphone_specs_not_generic)
  from disp phone fmt number count generic show ?thesis by blast
qed

section \<open>\<open>move\<close> on the three vehicles\<close>

text \<open>
  Claim C8. \<open>Car.move\<close>, \<open>Bike.move\<close> and \<open>Plane.move\<close> each return one fixed string, and
  the three strings are pairwise distinct. The three classes can be instantiated, and
  \<open>move\<close> on the list of a car, a bike and a plane gives the three strings in that order.
  In every list of cars, bikes and planes, \<open>move\<close> on each element runs the method of
  that element's own class, never the body that \<open>Vehicle\<close> declares.
\<close>

theorem move_dispatch:
  "Car_move = Inr (''Driving '' @ car_emoji)
   \<and> Bike_move = Inr (''Riding '' @ bike_emoji)
   \<and> Plane_move = Inr (''Flying '' @ plane_emoji)
   \<and> distinct [Car_move, Bike_move, Plane_move]
   \<and> map new_vehicle [Car, Bike, Plane] =
       [Inr (VehicleObj Car), Inr (VehicleObj Bike), Inr (VehicleObj Plane)]
   \<and> map move [VehicleObj Car, VehicleObj Bike, VehicleObj Plane] =
       [Car_move, Bike_move, Plane_move]
   \<and> (list_all (\<lambda>v. class_of v = Car \<or> class_of v = Bike \<or> class_of v = Plane) garage \<longrightarrow>
       i < length garage \<longrightarrow>
         move (garage ! i) =
           (if class_of (garage ! i) = Car then Car_move
            else if class_of (garage ! i) = Bike then Bike_move else Plane_move)
         \<and> move (garage ! i) \<noteq> Vehicle_move)"
proof -
  have new: "map new_vehicle [Car, Bike, Plane] =
       [Inr (VehicleObj Car), Inr (VehicleObj Bike), Inr (VehicleObj Plane)]"
    by (simp add: new_vehicle_def abstractmethods_def)
  have three: "map move [VehicleObj Car, VehicleObj Bike, VehicleObj Plane] =
       [Car_move, Bike_move, Plane_move]"
    by (simp add: move_def)
  have each: "list_all (\<lambda>v. class_of v = Car \<or> class_of v = Bike \<or> class_of v = Plane) garage \<longrightarrow>
       i < length garage \<longrightarrow>
         move (garage ! i) =
           (if class_of (garage ! i) = Car then Car_move
            else if class_of (garage ! i) = Bike then Bike_move else Plane_move)
         \<and> move (garage ! i) \<noteq> Vehicle_move"
  proof (intro impI)
    assume all: "list_all (\<lambda>v. class_of v = Car \<or> class_of v = Bike \<or> class_of v = Plane) garage"
      and i: "i < length garage"
    then have "class_of (garage ! i) = Car \<or> class_of (garage ! i) = Bike \<or> class_of (garage ! i) = Plane"
      by (simp add: list_all_length)
    then show "move (garage ! i) =
           (if class_of (garage ! i) = Car then Car_move
            else if class_of (garage ! i) = Bike then Bike_move else Plane_move)
         \<and> move (garage ! i) \<noteq> Vehicle_move"
      by (auto simp: move_def Vehicle_move_def Car_move_def Bike_move_def Plane_move_def)
  qed
  from Car_move_def Bike_move_def Plane_move_def moves_distinct new three each
  show ?thesis by blast
qed

theorem move_dispatch_witness:
  "list_all (\<lambda>v. class_of v = Car \<or> class_of v = Bike \<or> class_of v = Plane)
      [VehicleObj Plane, VehicleObj Car, VehicleObj Bike, VehicleObj Car]
   \<and> (2::nat) < length [VehicleObj Plane, VehicleObj Car, VehicleObj Bike, VehicleObj Car]
   \<and> move ([VehicleObj Plane, VehicleObj Car, VehicleObj Bike, VehicleObj Car] ! 2) = Bike_move
   \<and> Bike_move \<noteq> Vehicle_move"
  using move_dispatch [of "[VehicleObj Plane, VehicleObj Car, VehicleObj Bike, VehicleObj Car]" 2]
  by (simp add: move_def)

section \<open>\<open>Vehicle\<close> is abstract\<close>

text \<open>
  Claim C9. \<open>Vehicle\<close> declares \<open>move\<close> abstract, and the body it gives only raises. A
  class for which the lookup of \<open>move\<close> ends at that declaration, \<open>Vehicle\<close> itself or a
  subclass that does not define \<open>move\<close>, cannot be instantiated: the constructor call
  raises \<open>TypeError\<close>. Every other class is instantiated, and \<open>move\<close> on every object that
  was constructed returns a string: no failure is left for the first call of \<open>move\<close>.
\<close>

theorem abstract_Vehicle_not_instantiable:
  "abstractmethods Vehicle = [''move'']
   \<and> Vehicle_move = Inl NotImplementedError
   \<and> new_vehicle Vehicle = Inl TypeError
   \<and> new_vehicle (Subclass Vehicle None) = Inl TypeError
   \<and> (lookup_move c = lookup_move Vehicle \<longrightarrow> new_vehicle c = Inl TypeError)
   \<and> (lookup_move c \<noteq> lookup_move Vehicle \<longrightarrow> new_vehicle c = Inr (VehicleObj c))
   \<and> (new_vehicle c = Inr v \<longrightarrow> (\<exists>s. move v = Inr s))"
proof -
  have a: "abstractmethods Vehicle = [''move'']"
    by (simp add: abstractmethods_def)
  have v: "new_vehicle Vehicle = Inl TypeError"
    by (simp add: new_vehicle_def abstractmethods_def)
  have s: "new_vehicle (Subclass Vehicle None) = Inl TypeError"
    by (simp add: new_vehicle_def abstractmethods_def)
  have missing: "lookup_move c = lookup_move Vehicle \<longrightarrow> new_vehicle c = Inl TypeError"
    by (simp add: new_vehicle_def abstractmethods_def)
  have supplied: "lookup_move c \<noteq> lookup_move Vehicle \<longrightarrow> new_vehicle c = Inr (VehicleObj c)"
    using lookup_move_abstract [of c] by (simp add: new_vehicle_def abstractmethods_def)
  have works: "new_vehicle c = Inr v \<longrightarrow> (\<exists>s. move v = Inr s)"
  proof
    assume "new_vehicle c = Inr v"
    then have "\<not> isabstract (lookup_move c)" and "v = VehicleObj c"
      by (auto simp: new_vehicle_def abstractmethods_def split: if_splits)
    then show "\<exists>s. move v = Inr s"
      using lookup_move_concrete [of c] by (simp add: move_def)
  qed
  from a Vehicle_move_def v s missing supplied works show ?thesis by blast
qed

theorem abstract_Vehicle_not_instantiable_witness:
  "lookup_move (Subclass (Subclass Vehicle None) None) = lookup_move Vehicle
   \<and> new_vehicle (Subclass (Subclass Vehicle None) None) = Inl TypeError
   \<and> lookup_move (Subclass (Subclass Vehicle None) (Some ''Sailing'')) \<noteq> lookup_move Vehicle
   \<and> new_vehicle (Subclass (Subclass Vehicle None) (Some ''Sailing'')) =
       Inr (VehicleObj (Subclass (Subclass Vehicle None) (Some ''Sailing'')))
   \<and> move (VehicleObj (Subclass (Subclass Vehicle None) (Some ''Sailing''))) = Inr ''Sailing''
   \<and> new_vehicle Car = Inr (VehicleObj Car)
   \<and> move (VehicleObj Car) = Car_move"
  using abstract_Vehicle_not_instantiable [of "Subclass (Subclass Vehicle None) None"]
    abstract_Vehicle_not_instantiable [of "Subclass (Subclass Vehicle None) (Some ''Sailing'')"
      "VehicleObj (Subclass (Subclass Vehicle None) (Some ''Sailing''))"]
    abstract_Vehicle_not_instantiable [of Car "VehicleObj Car"]
  by (simp add: move_def)

section \<open>The drain primitive\<close>

text \<open>
  Claim C10. \<open>_drain(amount)\<close> sets the battery to \<open>max(0, battery - amount)\<close> and has no
  upper bound: a negative amount strictly raises the battery, and raises a battery of 100
  to 101. The four callers, \<open>Device.use\<close>, \<open>Smartphone.use\<close>, \<open>Smartphone.install_app\<close> and
  \<open>Smartphone.call\<close>, pass amounts that are never negative, and a drain by such an amount
  keeps a battery of at most 100 at most 100. So after every sequence of public calls
  the battery is between 0 and 100.
\<close>

theorem drain_no_upper_clamp:
  "battery (Device_drain self amount) = max 0 (battery self - amount)
   \<and> (amount < 0 \<longrightarrow> battery self < battery (Device_drain self amount))
   \<and> battery (Device_drain (Device_init b m 100) (- 1)) = 101
   \<and> Device_use self minutes = Device_drain self (max 0 (minutes div 10))
   \<and> 0 \<le> max 0 (minutes div 10)
   \<and> Smartphone_use p minutes = Device_drain p (max 0 (minutes div 5))
   \<and> 0 \<le> max 0 (minutes div 5)
   \<and> Smartphone_install_app p name =
       (if name \<notin> set (apps p) then Device_drain (p\<lparr>apps := apps p @ [name]\<rparr>) 1 else p)
   \<and> Smartphone_call p number minutes = Device_drain p (max 1 minutes)
   \<and> 0 \<le> max 1 minutes
   \<and> (0 \<le> amount \<longrightarrow> battery self \<le> 100 \<longrightarrow> battery (Device_drain self amount) \<le> 100)
   \<and> (list_all (has_method (construct c)) ops \<longrightarrow>
        (\<exists>x. run (construct c) ops = Inr x \<and> 0 \<le> battery_level x \<and> battery_level x \<le> 100))"
proof -
  have up: "amount < 0 \<longrightarrow> battery self < battery (Device_drain self amount)"
    by (auto simp: battery_Device_drain max_def)
  have over: "battery (Device_drain (Device_init b m 100) (- 1)) = 101"
    by (simp add: battery_Device_drain battery_Device_init)
  have sites: "Device_use self minutes = Device_drain self (max 0 (minutes div 10))"
    "Smartphone_use p minutes = Device_drain p (max 0 (minutes div 5))"
    "Smartphone_install_app p name =
       (if name \<notin> set (apps p) then Device_drain (p\<lparr>apps := apps p @ [name]\<rparr>) 1 else p)"
    "Smartphone_call p number minutes = Device_drain p (max 1 minutes)"
    by (simp_all add: Device_use_def Smartphone_use_def Smartphone_install_app_def
        Smartphone_call_def)
  have amounts: "0 \<le> max 0 (minutes div 10)" "0 \<le> max 0 (minutes div 5)" "0 \<le> max 1 minutes"
    by simp_all
  have keep: "0 \<le> amount \<longrightarrow> battery self \<le> 100 \<longrightarrow> battery (Device_drain self amount) \<le> 100"
    by (simp add: battery_Device_drain)
  have inv: "list_all (has_method (construct c)) ops \<longrightarrow>
        (\<exists>x. run (construct c) ops = Inr x \<and> 0 \<le> battery_level x \<and> battery_level x \<le> 100)"
    using run_in_range [of "construct c" ops] construct_in_range [of c] by blast
  from battery_Device_drain [of self amount] up over sites amounts keep inv
  show ?thesis by blast
qed

theorem drain_no_upper_clamp_witness:
  "(- 30 :: int) < 0
   \<and> battery (Device_init ''A'' ''B'' 90) < battery (Device_drain (Device_init ''A'' ''B'' 90) (- 30))
   \<and> battery (Device_drain (Device_init ''A'' ''B'' 90) (- 30)) = 120
   \<and> (0::int) \<le> 30 \<and> battery (Device_init ''A'' ''B'' 90) \<le> 100
   \<and> battery (Device_drain (Device_init ''A'' ''B'' 90) 30) = 60
   \<and> list_all (has_method (construct (NewSmartphone ''P'' ''M'' ''1'' None)))
       [Use (- 1000), Call ''x'' (Some (- 1000)), InstallApp ''Maps'']
   \<and> map_sum id battery_level (run (construct (NewSmartphone ''P'' ''M'' ''1'' None))
       [Use (- 1000), Call ''x'' (Some (- 1000)), InstallApp ''Maps'']) = Inr 98"
  using drain_no_upper_clamp [of "Device_init ''A'' ''B'' 90" "- 30" _ _ _ _ _ _
      "NewSmartphone ''P'' ''M'' ''1'' None" "[Use (- 1000), Call ''x'' (Some (- 1000)), InstallApp ''Maps'']"]
    drain_no_upper_clamp [of "Device_init ''A'' ''B'' 90" 30]
  by (simp add: Smartphone_init_def Device_init_def Device.extend_def Smartphone.fields_def
      Smartphone_install_app_def Smartphone_use_def Smartphone_call_def Device_drain_def
      Device_battery_level_def)

end
